theory Spec2Isabelle
  imports Complex_Main
begin

section \<open>Python values\<close>

text \<open>
  A Python \<open>str\<close> is a sequence of Unicode code points; it is modelled as a list of
  natural numbers.  \<open>u\<close> turns an ASCII literal into such a list.
\<close>

type_synonym pystr = "nat list"

definition u :: "string \<Rightarrow> pystr" where
  "u s = map of_char s"

text \<open>
  The values that \<open>json.loads\<close> produces and that a caller can put into the
  \<open>emails\<close> list.  A \<open>dict\<close> is the list of its items (keys distinct, looked
  up with \<open>map_of\<close>).  A number keeps its lexeme: no code path of the repository
  inspects a JSON number.
\<close>

datatype pyval =
    PNone
  | PBool bool
  | PNum pystr
  | PStr pystr
  | PList "pyval list"
  | PDict "(pystr \<times> pyval) list"

text \<open>Exceptions raised inside the extraction code.\<close>

datatype exn =
    JSONDecodeError
  | RecursionError
  | AttributeError
  | TypeError
  | ValueError

text \<open>
  The parts of the Python runtime whose tables are not part of the repository:
  the Unicode database behind \<open>\d\<close>, \<open>\s\<close>, \<open>str.isspace\<close>,
  \<open>str.lower\<close> and \<open>float\<close> (\<open>decimal\<close> gives the value of a decimal
  digit), the function \<open>json.loads\<close>, and the order in which a \<open>for\<close> loop
  visits the set literal \<open>family_members\<close> (Python fixes no order for a set of
  strings).  Every definition below takes them as the parameter \<open>E\<close>.
\<close>

record pyenv =
  decimal :: "nat \<Rightarrow> nat option"
  isspace :: "nat \<Rightarrow> bool"
  lower :: "pystr \<Rightarrow> pystr"
  loads :: "pystr \<Rightarrow> exn + pyval"
  family_order :: "pystr list"

section \<open>String methods\<close>

definition strip :: "pyenv \<Rightarrow> pystr \<Rightarrow> pystr" where
  "strip E s = rev (dropWhile (isspace E) (rev (dropWhile (isspace E) s)))"

text \<open>\<open>str.split()\<close> without arguments: the maximal runs of non-whitespace.\<close>

fun split_from :: "pyenv \<Rightarrow> pystr \<Rightarrow> pystr \<Rightarrow> pystr list" where
  "split_from E [] cur = (if cur = [] then [] else [cur])"
| "split_from E (c # cs) cur =
     (if isspace E c
      then (if cur = [] then split_from E cs [] else cur # split_from E cs [])
      else split_from E cs (cur @ [c]))"

definition split :: "pyenv \<Rightarrow> pystr \<Rightarrow> pystr list" where
  "split E s = split_from E s []"

text \<open>
  \<open>str.zfill(width)\<close>: pad with \<open>0\<close> on the left, after a leading sign.
\<close>

definition zfill :: "nat \<Rightarrow> pystr \<Rightarrow> pystr" where
  "zfill width s =
     (if width \<le> length s then s
      else (case s of
              c # cs \<Rightarrow>
                if c = 43 \<or> c = 45 then c # replicate (width - length s) 48 @ cs
                else replicate (width - length s) 48 @ s
            | [] \<Rightarrow> replicate width 48))"

definition replace :: "nat \<Rightarrow> nat \<Rightarrow> pystr \<Rightarrow> pystr" where
  "replace a b s = map (\<lambda>c. if c = a then b else c) s"

definition startswith :: "pystr \<Rightarrow> pystr \<Rightarrow> bool" where
  "startswith s p = (take (length p) s = p)"

definition endswith :: "pystr \<Rightarrow> pystr \<Rightarrow> bool" where
  "endswith s p = (length p \<le> length s \<and> drop (length s - length p) s = p)"

section \<open>Date conversion\<close>

definition swedish_months :: "(pystr \<times> pystr) list" where
  "swedish_months =
     [(u ''januari'', u ''01''), (u ''februari'', u ''02''), (u ''mars'', u ''03''),
      (u ''april'', u ''04''), (u ''maj'', u ''05''), (u ''juni'', u ''06''),
      (u ''juli'', u ''07''), (u ''augusti'', u ''08''), (u ''september'', u ''09''),
      (u ''oktober'', u ''10''), (u ''november'', u ''11''), (u ''december'', u ''12'')]"

text \<open>
  \<open>convert_swedish_date_to_iso\<close> occurs three times in the repository (nested in
  \<open>extract_uber_data\<close>, at module level and nested in \<open>function\<close> of
  \<open>process_uber_receipts.py\<close>) with the same body.  No statement inside its
  \<open>try\<close> block can raise on a \<open>str\<close>, so the result is an option.
\<close>

definition convert_swedish_date_to_iso :: "pyenv \<Rightarrow> pystr \<Rightarrow> pystr option" where
  "convert_swedish_date_to_iso E date_str =
     (if date_str = [] then None
      else (case split E (strip E date_str) of
              [p0, p1, p2] \<Rightarrow>
                (let day = zfill 2 p0;
                     month_swedish = lower E p1;
                     year = p2
                 in (case map_of swedish_months month_swedish of
                       Some month \<Rightarrow> Some (year @ u ''-'' @ month @ u ''-'' @ day)
                     | None \<Rightarrow> None))
            | _ \<Rightarrow> None))"

section \<open>Regular expressions\<close>

text \<open>
  The patterns of the repository use literals, character classes, alternation,
  capturing groups and quantifiers on a single character class (greedy ones and the
  lazy \<open>.*?\<close>).  \<open>rmatch\<close> is the backtracking matcher of Python's \<open>re\<close>
  on these: alternatives are tried left to right, a greedy quantifier tries the longest
  run first, a lazy one the shortest, and the first way to reach the end of the
  pattern wins.  The continuation \<open>k\<close> is the rest of the pattern.
\<close>

datatype item = Digit | Space | Ch nat | Rng nat nat

datatype atom = Cls "item list" | Dot

datatype re =
    Lit pystr
  | One atom
  | Rep bool nat "nat option" atom
  | Seq re re
  | Alt re re
  | Grp nat re

type_synonym groups = "nat \<Rightarrow> pystr option"

fun item_ok :: "pyenv \<Rightarrow> item \<Rightarrow> nat \<Rightarrow> bool" where
  "item_ok E Digit c = (decimal E c \<noteq> None)"
| "item_ok E Space c = isspace E c"
| "item_ok E (Ch a) c = (c = a)"
| "item_ok E (Rng a b) c = (a \<le> c \<and> c \<le> b)"

fun atom_ok :: "pyenv \<Rightarrow> atom \<Rightarrow> nat \<Rightarrow> bool" where
  "atom_ok E (Cls items) c = list_ex (\<lambda>i. item_ok E i c) items"
| "atom_ok E Dot c = (c \<noteq> 10)"

definition below :: "nat \<Rightarrow> nat option \<Rightarrow> bool" where
  "below n hi = (case hi of None \<Rightarrow> True | Some h \<Rightarrow> n < h)"

fun rep_greedy ::
  "(nat \<Rightarrow> bool) \<Rightarrow> nat \<Rightarrow> nat \<Rightarrow> nat option \<Rightarrow> pystr \<Rightarrow> (pystr \<Rightarrow> 'a option) \<Rightarrow> 'a option" where
  "rep_greedy p n lo hi [] k = (if lo \<le> n then k [] else None)"
| "rep_greedy p n lo hi (c # cs) k =
     (if p c \<and> below n hi
      then (case rep_greedy p (Suc n) lo hi cs k of
              Some r \<Rightarrow> Some r
            | None \<Rightarrow> if lo \<le> n then k (c # cs) else None)
      else if lo \<le> n then k (c # cs) else None)"

fun rep_lazy ::
  "(nat \<Rightarrow> bool) \<Rightarrow> nat \<Rightarrow> nat \<Rightarrow> nat option \<Rightarrow> pystr \<Rightarrow> (pystr \<Rightarrow> 'a option) \<Rightarrow> 'a option" where
  "rep_lazy p n lo hi [] k = (if lo \<le> n then k [] else None)"
| "rep_lazy p n lo hi (c # cs) k =
     (case (if lo \<le> n then k (c # cs) else None) of
        Some r \<Rightarrow> Some r
      | None \<Rightarrow> if p c \<and> below n hi then rep_lazy p (Suc n) lo hi cs k else None)"

fun rmatch ::
  "pyenv \<Rightarrow> re \<Rightarrow> pystr \<Rightarrow> groups \<Rightarrow> (pystr \<Rightarrow> groups \<Rightarrow> 'a option) \<Rightarrow> 'a option" where
  "rmatch E (Lit l) s g k =
     (if take (length l) s = l then k (drop (length l) s) g else None)"
| "rmatch E (One a) s g k =
     (case s of [] \<Rightarrow> None | c # cs \<Rightarrow> if atom_ok E a c then k cs g else None)"
| "rmatch E (Rep greedy lo hi a) s g k =
     (if greedy then rep_greedy (atom_ok E a) 0 lo hi s (\<lambda>s'. k s' g)
      else rep_lazy (atom_ok E a) 0 lo hi s (\<lambda>s'. k s' g))"
| "rmatch E (Seq a b) s g k = rmatch E a s g (\<lambda>s' g'. rmatch E b s' g' k)"
| "rmatch E (Alt a b) s g k =
     (case rmatch E a s g k of Some r \<Rightarrow> Some r | None \<Rightarrow> rmatch E b s g k)"
| "rmatch E (Grp n a) s g k =
     rmatch E a s g (\<lambda>s' g'. k s' (g'(n := Some (take (length s - length s') s))))"

text \<open>A match object: where the match starts and stops, and its groups.\<close>

record rematch =
  start :: nat
  stop :: nat
  grp :: groups

definition match_here :: "pyenv \<Rightarrow> re \<Rightarrow> pystr \<Rightarrow> (pystr \<times> groups) option" where
  "match_here E r s = rmatch E r s (\<lambda>n. None) (\<lambda>s' g. Some (s', g))"

text \<open>
  \<open>re.search\<close>: the match at the leftmost position of the text where the pattern
  matches.  \<open>pos\<close> counts the characters already passed.
\<close>

fun search_from :: "pyenv \<Rightarrow> re \<Rightarrow> pystr \<Rightarrow> nat \<Rightarrow> rematch option" where
  "search_from E r [] pos =
     (case match_here E r [] of
        Some (s', g) \<Rightarrow> Some \<lparr>start = pos, stop = pos, grp = g\<rparr>
      | None \<Rightarrow> None)"
| "search_from E r (c # cs) pos =
     (case match_here E r (c # cs) of
        Some (s', g) \<Rightarrow>
          Some \<lparr>start = pos, stop = pos + (length (c # cs) - length s'), grp = g\<rparr>
      | None \<Rightarrow> search_from E r cs (Suc pos))"

definition search :: "pyenv \<Rightarrow> re \<Rightarrow> pystr \<Rightarrow> rematch option" where
  "search E r s = search_from E r s 0"

definition group :: "rematch \<Rightarrow> nat \<Rightarrow> pystr option" where
  "group m n = grp m n"

text \<open>Helpers to write patterns: a sequence, \<open>x+\<close>, \<open>x*\<close>, \<open>x?\<close>, \<open>x{a,b}\<close>, \<open>.*?\<close>.\<close>

fun cat :: "re list \<Rightarrow> re" where
  "cat [] = Lit []"
| "cat [r] = r"
| "cat (r # rs) = Seq r (cat rs)"

definition plus :: "atom \<Rightarrow> re" where "plus a = Rep True 1 None a"
definition star :: "atom \<Rightarrow> re" where "star a = Rep True 0 None a"
definition opt :: "atom \<Rightarrow> re" where "opt a = Rep True 0 (Some 1) a"
definition times :: "nat \<Rightarrow> nat \<Rightarrow> atom \<Rightarrow> re" where "times a b x = Rep True a (Some b) x"
definition lazy_star :: "atom \<Rightarrow> re" where "lazy_star a = Rep False 0 None a"

text \<open>The character classes of the patterns.\<close>

definition ws :: atom where "ws = Cls [Space]"
definition digit :: atom where "digit = Cls [Digit]"

text \<open>\<open>[\d\.,]\<close>\<close>
definition amount_char :: atom where
  "amount_char = Cls [Digit, Ch 46, Ch 44]"

text \<open>\<open>[\.,]\<close>\<close>
definition separator :: atom where
  "separator = Cls [Ch 46, Ch 44]"

text \<open>\<open>[A-Za-z$\<euro>\<pounds>]\<close> with the dollar, euro (U+20AC) and pound (U+00A3) signs.\<close>
definition currency_char :: atom where
  "currency_char = Cls [Rng 65 90, Rng 97 122, Ch 36, Ch 8364, Ch 163]"

text \<open>\<open>[a-zA-Z]\<close> and the six Swedish letters U+00E5, U+00E4, U+00F6, U+00C5, U+00C4, U+00D6.\<close>
definition letter :: atom where
  "letter = Cls [Rng 97 122, Rng 65 90, Ch 229, Ch 228, Ch 246, Ch 197, Ch 196, Ch 214]"


section \<open>The patterns of \<open>extract_uber_data.py\<close>\<close>

definition keyword :: re where
  "keyword = Alt (Lit (u ''Totalt'')) (Lit (u ''Avbokningsavgift''))"

text \<open>\<open>(Totalt|Avbokningsavgift)\s+([\d\.,]+)\s+([A-Za-z$\<euro>\<pounds>]+)\<close>\<close>
definition total_pattern :: re where
  "total_pattern =
     cat [Grp 1 keyword, plus ws, Grp 2 (plus amount_char), plus ws, Grp 3 (plus currency_char)]"

text \<open>\<open>(\d+[\.,]?\d*)\s*([A-Za-z$\<euro>\<pounds>]+)\<close>\<close>
definition total_pattern2 :: re where
  "total_pattern2 =
     cat [Grp 1 (cat [plus digit, opt separator, star digit]), star ws, Grp 2 (plus currency_char)]"

text \<open>\<open>\d{1,2}\s+[a-zA-Z...]+\s+\d{4}\<close>\<close>
definition date_token :: re where
  "date_token = cat [times 1 2 digit, plus ws, plus letter, plus ws, times 4 4 digit]"

definition date_pattern :: re where
  "date_pattern =
     cat [Grp 1 keyword, plus ws, plus amount_char, plus ws, plus currency_char, plus ws,
          Grp 2 date_token]"

definition general_date_pattern :: re where
  "general_date_pattern = Grp 1 date_token"

text \<open>The two greeting phrases, with U+00F6 and U+00E5.\<close>
definition greeting :: re where
  "greeting =
     Alt (Lit (u ''Tack f'' @ [246] @ u ''r att du reser,''))
         (Lit (u ''Vi ses en annan g'' @ [229] @ u ''ng,''))"

definition passenger_pattern :: re where
  "passenger_pattern = cat [Grp 1 greeting, plus ws, Grp 2 (plus letter)]"

text \<open>\<open>(?:reser|\<aa>ker|f\<adieresis>rd|resa)\<close>\<close>
definition travel_word :: re where
  "travel_word =
     Alt (Lit (u ''reser''))
       (Alt (Lit ([229] @ u ''ker'')) (Alt (Lit (u ''f'' @ [228] @ u ''rd'')) (Lit (u ''resa''))))"

text \<open>\<open>(?:resa|tur)\<close>\<close>
definition trip_word :: re where
  "trip_word = Alt (Lit (u ''resa'')) (Lit (u ''tur''))"

definition name_patterns :: "pystr \<Rightarrow> re list" where
  "name_patterns name =
     [cat [Lit (u ''Tack''), plus ws, Lit name, Lit (u ''!'')],
      cat [Lit name, Lit (u ''s''), plus ws, trip_word],
      cat [travel_word, lazy_star Dot, Lit (u '',''), plus ws, Lit name]]"

definition general_patterns :: "re list" where
  "general_patterns =
     [cat [Lit (u ''Tack''), plus ws, Grp 1 (plus letter), Lit (u ''!'')],
      cat [travel_word, lazy_star Dot, Lit (u '',''), plus ws, Grp 1 (plus letter)],
      cat [Grp 1 (plus letter), Lit (u ''s''), plus ws, trip_word]]"

definition family_members :: "pystr list" where
  "family_members =
     [u ''Fredrik'', u ''Viggo'', u ''Agne'', u ''Giedre'', u ''Nadine'', u ''Leona'']"

section \<open>\<open>float\<close>\<close>

text \<open>
  \<open>float(cost_str)\<close>.  The argument is always a group matched by \<open>[\d\.,]+\<close> or
  \<open>\d+[\.,]?\d*\<close> in which \<open>,\<close> has been replaced by \<open>.\<close>, so it consists of
  decimal digits and dots; on such a string \<open>float\<close> raises ValueError unless
  there is at most one dot and at least one digit.  The result is the decimal value of
  the string as a rational; the Python float is this value rounded to binary64, so
  equal values here are equal floats there.
\<close>

definition digit_val :: "pyenv \<Rightarrow> nat \<Rightarrow> nat" where
  "digit_val E c = (case decimal E c of Some d \<Rightarrow> d | None \<Rightarrow> 0)"

definition digits_val :: "pyenv \<Rightarrow> pystr \<Rightarrow> nat" where
  "digits_val E ds = foldl (\<lambda>acc c. 10 * acc + digit_val E c) 0 ds"

definition is_digit :: "pyenv \<Rightarrow> nat \<Rightarrow> bool" where
  "is_digit E c = (decimal E c \<noteq> None)"

definition py_float :: "pyenv \<Rightarrow> pystr \<Rightarrow> exn + rat" where
  "py_float E s =
     (let ip = takeWhile (is_digit E) s; rest = dropWhile (is_digit E) s
      in (case rest of
            [] \<Rightarrow> if ip = [] then Inl ValueError else Inr (of_nat (digits_val E ip))
          | c # fp \<Rightarrow>
              if c = 46 \<and> list_all (is_digit E) fp \<and> (ip \<noteq> [] \<or> fp \<noteq> [])
              then Inr (of_nat (digits_val E ip) + of_nat (digits_val E fp) / 10 ^ length fp)
              else Inl ValueError))"

section \<open>\<open>extract_receipt_from_email\<close>\<close>

record receipt =
  cost :: "rat option"
  currency :: "pystr option"
  date :: "pystr option"
  passenger :: "pystr option"

text \<open>
  \<open>cost_str = match.group(n).replace(',', '.'); cost = float(cost_str)\<close>.
  A method call on the \<open>None\<close> of a group that did not take part raises
  AttributeError.
\<close>

definition cost_of_group :: "pyenv \<Rightarrow> pystr option \<Rightarrow> exn + rat" where
  "cost_of_group E grp_text =
     (case grp_text of
        None \<Rightarrow> Inl AttributeError
      | Some a \<Rightarrow> py_float E (replace 44 46 a))"

text \<open>Lines 133 to 149: total cost and currency, keyword pattern first.\<close>

definition cost_and_currency :: "pyenv \<Rightarrow> pystr \<Rightarrow> exn + (rat option \<times> pystr option)" where
  "cost_and_currency E body =
     (case search E total_pattern body of
        Some total_match \<Rightarrow>
          (case cost_of_group E (group total_match 2) of
             Inl e \<Rightarrow> Inl e
           | Inr c \<Rightarrow> Inr (Some c, group total_match 3))
      | None \<Rightarrow>
          (case search E total_pattern2 body of
             Some total_match2 \<Rightarrow>
               (case cost_of_group E (group total_match2 1) of
                  Inl e \<Rightarrow> Inl e
                | Inr c \<Rightarrow> Inr (Some c, group total_match2 2))
           | None \<Rightarrow> Inr (None, None)))"

text \<open>\<open>date_str = match.group(n).strip(); date_str = convert_swedish_date_to_iso(date_str)\<close>\<close>

definition date_of_group :: "pyenv \<Rightarrow> pystr option \<Rightarrow> exn + pystr option" where
  "date_of_group E grp_text =
     (case grp_text of
        None \<Rightarrow> Inl AttributeError
      | Some d \<Rightarrow> Inr (convert_swedish_date_to_iso E (strip E d)))"

text \<open>Lines 151 to 164: the date after the charge line, else the first date anywhere.\<close>

definition date_of_body :: "pyenv \<Rightarrow> pystr \<Rightarrow> exn + pystr option" where
  "date_of_body E body =
     (case search E date_pattern body of
        Some date_match \<Rightarrow> date_of_group E (group date_match 2)
      | None \<Rightarrow>
          (case search E general_date_pattern body of
             Some general_date_match \<Rightarrow> date_of_group E (group general_date_match 1)
           | None \<Rightarrow> Inr None))"

text \<open>
  Lines 199 to 220: the first general pattern that matches gives the candidate; a
  family member equal to it up to \<open>lower()\<close> replaces it.  \<open>not passenger\<close> also
  holds for the empty string.
\<close>

definition canonical :: "pyenv \<Rightarrow> pystr \<Rightarrow> pystr" where
  "canonical E candidate =
     (case find (\<lambda>member. lower E candidate = lower E member) (family_order E) of
        Some member \<Rightarrow> if member = [] then candidate else member
      | None \<Rightarrow> candidate)"

fun general_passenger :: "pyenv \<Rightarrow> re list \<Rightarrow> pystr \<Rightarrow> pystr option \<Rightarrow> exn + pystr option" where
  "general_passenger E [] body p = Inr p"
| "general_passenger E (pattern # rest) body p =
     (case search E pattern body of
        Some m \<Rightarrow>
          (case group m 1 of
             None \<Rightarrow> Inl AttributeError
           | Some c \<Rightarrow> Inr (Some (canonical E (strip E c))))
      | None \<Rightarrow> general_passenger E rest body p)"

text \<open>
  Lines 184 to 197: the loop over \<open>family_members\<close>, with the variable
  \<open>passenger\<close> as state.  \<open>truthy\<close> is Python's truth value of an optional
  string.
\<close>

definition truthy :: "pystr option \<Rightarrow> bool" where
  "truthy p = (p \<noteq> None \<and> p \<noteq> Some [])"

fun known_passenger :: "pyenv \<Rightarrow> pystr list \<Rightarrow> pystr \<Rightarrow> pystr option \<Rightarrow> pystr option" where
  "known_passenger E [] body p = p"
| "known_passenger E (name # rest) body p =
     (let p' = (if list_ex (\<lambda>pattern. search E pattern body \<noteq> None) (name_patterns name)
                then Some name else p)
      in if truthy p' then p' else known_passenger E rest body p')"

text \<open>Lines 166 to 220.\<close>

definition passenger_of_body :: "pyenv \<Rightarrow> pystr \<Rightarrow> exn + pystr option" where
  "passenger_of_body E body =
     (case search E passenger_pattern body of
        Some passenger_match \<Rightarrow>
          (case group passenger_match 2 of
             None \<Rightarrow> Inl AttributeError
           | Some c \<Rightarrow> Inr (Some (strip E c)))
      | None \<Rightarrow>
          (let p = known_passenger E (family_order E) body None
           in if truthy p then Inr p else general_passenger E general_patterns body p))"

text \<open>\<open>email_data.get('body', '')\<close>: only a \<open>dict\<close> has \<open>get\<close>.\<close>

definition get_body :: "pyval \<Rightarrow> exn + pyval" where
  "get_body email_data =
     (case email_data of
        PDict items \<Rightarrow>
          (case map_of items (u ''body'') of Some v \<Rightarrow> Inr v | None \<Rightarrow> Inr (PStr []))
      | _ \<Rightarrow> Inl AttributeError)"

text \<open>The part of \<open>extract_receipt_from_email\<close> after \<open>body\<close> is known.
  \<open>re.search\<close> raises TypeError on a body that is not a string.\<close>

definition extract_from_body :: "pyenv \<Rightarrow> pyval \<Rightarrow> exn + receipt" where
  "extract_from_body E body_val =
     (case body_val of
        PStr body \<Rightarrow>
          (case cost_and_currency E body of
             Inl e \<Rightarrow> Inl e
           | Inr (c, cur) \<Rightarrow>
               (case date_of_body E body of
                  Inl e \<Rightarrow> Inl e
                | Inr d \<Rightarrow>
                    (case passenger_of_body E body of
                       Inl e \<Rightarrow> Inl e
                     | Inr p \<Rightarrow> Inr \<lparr>cost = c, currency = cur, date = d, passenger = p\<rparr>)))
      | _ \<Rightarrow> Inl TypeError)"

definition empty_receipt :: receipt where
  "empty_receipt = \<lparr>cost = None, currency = None, date = None, passenger = None\<rparr>"

definition extract_receipt_from_email :: "pyenv \<Rightarrow> pyval \<Rightarrow> exn + receipt" where
  "extract_receipt_from_email E email_data =
     (case email_data of
        PStr text \<Rightarrow>
          (case loads E text of
             Inl JSONDecodeError \<Rightarrow> Inr empty_receipt
           | Inl e \<Rightarrow> Inl e
           | Inr v \<Rightarrow>
               (case get_body v of Inl e \<Rightarrow> Inl e | Inr b \<Rightarrow> extract_from_body E b))
      | _ \<Rightarrow>
          (case get_body email_data of Inl e \<Rightarrow> Inl e | Inr b \<Rightarrow> extract_from_body E b))"


section \<open>\<open>extract_uber_data\<close>\<close>

text \<open>The four lists that the loop over the emails appends to.\<close>

record lists =
  dates :: "pystr option list"
  passenger_names :: "pystr option list"
  costs :: "rat list"
  currencies :: "pystr list"

definition no_lists :: lists where
  "no_lists = \<lparr>dates = [], passenger_names = [], costs = [], currencies = []\<rparr>"

text \<open>The body of the \<open>try\<close> in the loop: four appends when cost and currency are
  there.\<close>

definition append_receipt :: "receipt \<Rightarrow> lists \<Rightarrow> lists" where
  "append_receipt extracted st =
     (case cost extracted of
        None \<Rightarrow> st
      | Some c \<Rightarrow>
          (case currency extracted of
             None \<Rightarrow> st
           | Some cur \<Rightarrow>
               st\<lparr>dates := dates st @ [date extracted],
                  passenger_names := passenger_names st @ [passenger extracted],
                  costs := costs st @ [c],
                  currencies := currencies st @ [cur]\<rparr>))"

text \<open>Lines 235 to 248: an exception skips the email.\<close>

fun process_emails :: "pyenv \<Rightarrow> pyval list \<Rightarrow> lists \<Rightarrow> lists" where
  "process_emails E [] st = st"
| "process_emails E (email # rest) st =
     process_emails E rest
       (case extract_receipt_from_email E email of
          Inl e \<Rightarrow> st
        | Inr extracted \<Rightarrow> append_receipt extracted st)"

text \<open>The errors that leave \<open>extract_uber_data\<close> and \<open>function\<close>.\<close>

datatype error =
    FailedToParse exn
  | InconsistentLengths nat nat nat nat
  | NoValidReceipts
  | NotIterable

text \<open>\<open>\n\nValue #\d+:\n\n\<close>\<close>
definition marker :: re where
  "marker = cat [Lit ([10, 10] @ u ''Value #''), plus digit, Lit (u '':'' @ [10, 10])]"

text \<open>
  \<open>re.split\<close> for a pattern without groups that matches no empty string: the
  pieces between the successive leftmost matches.
\<close>

function re_split :: "pyenv \<Rightarrow> re \<Rightarrow> pystr \<Rightarrow> pystr list" where
  "re_split E r s =
     (case search E r s of
        None \<Rightarrow> [s]
      | Some m \<Rightarrow>
          if start m < stop m \<and> stop m \<le> length s
          then take (start m) s # re_split E r (drop (stop m) s)
          else [s])"
  by pat_completeness auto
termination
  by (relation "measure (\<lambda>(E, r, s). length s)") auto

declare re_split.simps [simp del]

text \<open>
  Lines 69 to 77: the text of a part that is handed to \<open>json.loads\<close>, if any.
  \<open>part[part.find('{'):]\<close> is the part from its first \<open>{\<close> on.
\<close>

definition fragment :: "pystr \<Rightarrow> pystr option" where
  "fragment part =
     (if startswith part (u ''{'') \<and> endswith part (u ''}'') then Some part
      else if 123 \<in> set part
      then (let json_part = dropWhile (\<lambda>c. c \<noteq> 123) part
            in if endswith json_part (u ''}'') then Some json_part else None)
      else None)"

text \<open>Lines 63 to 79: the loop over the parts, \<open>parsed_emails\<close> as accumulator.
  JSONDecodeError skips the part; any other exception leaves the loop.\<close>

fun parse_parts :: "pyenv \<Rightarrow> pystr list \<Rightarrow> pyval list \<Rightarrow> exn + pyval list" where
  "parse_parts E [] parsed_emails = Inr parsed_emails"
| "parse_parts E (p # ps) parsed_emails =
     (let part = strip E p
      in if part = [] then parse_parts E ps parsed_emails
         else (case fragment part of
                 None \<Rightarrow> parse_parts E ps parsed_emails
               | Some text \<Rightarrow>
                   (case loads E text of
                      Inr email_data \<Rightarrow> parse_parts E ps (parsed_emails @ [email_data])
                    | Inl JSONDecodeError \<Rightarrow> parse_parts E ps parsed_emails
                    | Inl e \<Rightarrow> Inl e)))"

text \<open>Lines 53 to 81.\<close>

definition parse_emails :: "pyenv \<Rightarrow> pystr \<Rightarrow> exn + pyval list" where
  "parse_emails E emails =
     (case loads E emails of
        Inr parsed \<Rightarrow> Inr (case parsed of PList l \<Rightarrow> l | _ \<Rightarrow> [parsed])
      | Inl JSONDecodeError \<Rightarrow> parse_parts E (re_split E marker emails) []
      | Inl e \<Rightarrow> Inl e)"

text \<open>Lines 250 to 278: the two validations and the result.\<close>

definition validate ::
  "bool \<Rightarrow> lists \<Rightarrow> error + (pystr option list \<times> pystr option list \<times> rat list \<times> pystr list)" where
  "validate check_empty st =
     (let list_lengths =
            [length (dates st), length (passenger_names st), length (costs st),
             length (currencies st)]
      in if card (set list_lengths) \<noteq> 1
         then Inl (InconsistentLengths (length (dates st)) (length (passenger_names st))
                     (length (costs st)) (length (currencies st)))
         else if check_empty \<and> length (costs st) = 0 then Inl NoValidReceipts
         else Inr (dates st, passenger_names st, costs st, currencies st))"

text \<open>
  The list that the loop of \<open>extract_uber_data\<close> runs over.  A string is parsed
  first (lines 51 to 84, an exception there becomes the ValueError of line 84); the
  loop visits the elements of a list or the keys of a \<open>dict\<close>; any other value is
  not iterable.
\<close>

definition normalize_emails :: "pyenv \<Rightarrow> pyval \<Rightarrow> error + pyval list" where
  "normalize_emails E emails =
     (case emails of
        PStr text \<Rightarrow>
          (case parse_emails E text of
             Inl e \<Rightarrow> Inl (FailedToParse e)
           | Inr parsed_emails \<Rightarrow> Inr parsed_emails)
      | PList l \<Rightarrow> Inr l
      | PDict items \<Rightarrow> Inr (map (\<lambda>(k, x). PStr k) items)
      | _ \<Rightarrow> Inl NotIterable)"

definition extract_uber_data ::
  "pyenv \<Rightarrow> pyval \<Rightarrow> error + (pystr option list \<times> pystr option list \<times> rat list \<times> pystr list)" where
  "extract_uber_data E emails =
     (case normalize_emails E emails of
        Inl err \<Rightarrow> Inl err
      | Inr l \<Rightarrow> validate True (process_emails E l no_lists))"

section \<open>\<open>process_uber_receipts.py\<close>\<close>

text \<open>\<open>Totalt\s+([\d\.,]+)\s+([A-Za-z$\<euro>\<pounds>]+)\<close>\<close>
definition strict_total_pattern :: re where
  "strict_total_pattern =
     cat [Lit (u ''Totalt''), plus ws, Grp 1 (plus amount_char), plus ws, Grp 2 (plus currency_char)]"

text \<open>\<open>[0-9]\<close>\<close>
definition ascii_digit :: atom where
  "ascii_digit = Cls [Rng 48 57]"

text \<open>\<open>Totalt\s+[\d\.,]+\s+[A-Za-z$\<euro>\<pounds>]+\s+([0-9]{1,2}\s+[a-zA-Z...]+\s+[0-9]{4})\<close>\<close>
definition strict_date_pattern :: re where
  "strict_date_pattern =
     cat [Lit (u ''Totalt''), plus ws, plus amount_char, plus ws, plus currency_char, plus ws,
          Grp 1 (cat [times 1 2 ascii_digit, plus ws, plus letter, plus ws, times 4 4 ascii_digit])]"

text \<open>\<open>Tack f\<odieresis>r att du reser,\s+([A-Za-z...]+)\<close>\<close>
definition strict_passenger_pattern :: re where
  "strict_passenger_pattern =
     cat [Lit (u ''Tack f'' @ [246] @ u ''r att du reser,''), plus ws, Grp 1 (plus letter)]"

text \<open>\<open>extract_single_receipt\<close>, nested in \<open>function\<close>.\<close>

definition extract_single_receipt :: "pyenv \<Rightarrow> pyval \<Rightarrow> exn + receipt" where
  "extract_single_receipt E email_data =
     (case get_body email_data of
        Inl e \<Rightarrow> Inl e
      | Inr (PStr body) \<Rightarrow>
          (case (case search E strict_total_pattern body of
                   Some total_match \<Rightarrow>
                     (case cost_of_group E (group total_match 1) of
                        Inl e \<Rightarrow> Inl e
                      | Inr c \<Rightarrow> Inr (Some c, group total_match 2))
                 | None \<Rightarrow> Inr (None, None)) of
             Inl e \<Rightarrow> Inl e
           | Inr (c, cur) \<Rightarrow>
               (case (case search E strict_date_pattern body of
                        Some date_match \<Rightarrow> date_of_group E (group date_match 1)
                      | None \<Rightarrow> Inr None) of
                  Inl e \<Rightarrow> Inl e
                | Inr d \<Rightarrow>
                    (case (case search E strict_passenger_pattern body of
                             Some passenger_match \<Rightarrow>
                               (case group passenger_match 1 of
                                  None \<Rightarrow> Inl AttributeError
                                | Some p \<Rightarrow> Inr (Some (strip E p)))
                           | None \<Rightarrow> Inr None) of
                       Inl e \<Rightarrow> Inl e
                     | Inr p \<Rightarrow> Inr \<lparr>cost = c, currency = cur, date = d, passenger = p\<rparr>)))
      | Inr _ \<Rightarrow> Inl TypeError)"

fun process_single :: "pyenv \<Rightarrow> pyval list \<Rightarrow> lists \<Rightarrow> lists" where
  "process_single E [] st = st"
| "process_single E (email # rest) st =
     process_single E rest
       (case extract_single_receipt E email of
          Inl e \<Rightarrow> st
        | Inr extracted \<Rightarrow> append_receipt extracted st)"

text \<open>\<open>function\<close> of \<open>process_uber_receipts.py\<close> (lines 186 to 309): the same
  loop and the length validation, and no test for an empty result.\<close>

definition iterate :: "pyval \<Rightarrow> error + pyval list" where
  "iterate emails =
     (case emails of
        PList l \<Rightarrow> Inr l
      | PDict items \<Rightarrow> Inr (map (\<lambda>(k, x). PStr k) items)
      | PStr text \<Rightarrow> Inr (map (\<lambda>c. PStr [c]) text)
      | _ \<Rightarrow> Inl NotIterable)"

definition function' ::
  "pyenv \<Rightarrow> pyval \<Rightarrow> error + (pystr option list \<times> pystr option list \<times> rat list \<times> pystr list)" where
  "function' E emails =
     (case iterate emails of
        Inl err \<Rightarrow> Inl err
      | Inr l \<Rightarrow> validate False (process_single E l no_lists))"

section \<open>A Python runtime for closed evaluation\<close>

text \<open>
  \<open>json_loads\<close> follows the decoder of CPython's \<open>json\<close> module (strict mode,
  the default hooks) as one pass over the text from left to right: whitespace is
  space, tab, line feed and carriage return; a string ends at the first unescaped
  quote, must not hold a raw control character, and knows the escapes
  \<open>\" \\ \/ \b \f \n \r \t\<close> and \<open>\uXXXX\<close> (an escaped surrogate pair is one code
  point); a bare token is \<open>null\<close>, \<open>true\<close>, \<open>false\<close>, \<open>NaN\<close>,
  \<open>Infinity\<close>, \<open>-Infinity\<close> or a JSON number; a later duplicate key replaces
  the earlier value.  Nesting deeper than \<open>limit\<close> raises RecursionError, as the
  interpreter's recursion limit does; everything else that is not JSON raises
  JSONDecodeError.
\<close>

datatype frame = FArr "pyval list" | FObj "(pystr \<times> pyval) list" pystr

datatype pmode =
    WantValue bool
  | WantKey bool
  | WantColon pystr
  | WantComma
  | Finished pyval

datatype lexstate =
    LIdle
  | LBare pystr
  | LStr pystr bool
  | LEsc pystr bool
  | LHex pystr bool "nat list"

definition json_digit :: "nat \<Rightarrow> bool" where
  "json_digit c = (48 \<le> c \<and> c \<le> 57)"

definition exp_ok :: "pystr \<Rightarrow> bool" where
  "exp_ok r =
     (case r of
        [] \<Rightarrow> True
      | c # r' \<Rightarrow>
          (c = 101 \<or> c = 69) \<and>
          (let r2 = (case r' of [] \<Rightarrow> [] | d # x \<Rightarrow> if d = 43 \<or> d = 45 then x else r')
           in r2 \<noteq> [] \<and> list_all json_digit r2))"

definition frac_exp_ok :: "pystr \<Rightarrow> bool" where
  "frac_exp_ok r =
     (case r of
        [] \<Rightarrow> True
      | c # r' \<Rightarrow>
          if c = 46
          then takeWhile json_digit r' \<noteq> [] \<and> exp_ok (dropWhile json_digit r')
          else exp_ok r)"

text \<open>\<open>-?(0|[1-9][0-9]*)(\.[0-9]+)?([eE][-+]?[0-9]+)?\<close>, the whole token.\<close>

definition is_json_number :: "pystr \<Rightarrow> bool" where
  "is_json_number s =
     (let s1 = (case s of [] \<Rightarrow> [] | c # r \<Rightarrow> if c = 45 then r else s);
          ip = takeWhile json_digit s1
      in (case ip of
            [] \<Rightarrow> False
          | d # ds \<Rightarrow> (d \<noteq> 48 \<or> ds = []) \<and> frac_exp_ok (dropWhile json_digit s1)))"

definition bare_value :: "pystr \<Rightarrow> pyval option" where
  "bare_value w =
     (if w = u ''null'' then Some PNone
      else if w = u ''true'' then Some (PBool True)
      else if w = u ''false'' then Some (PBool False)
      else if w = u ''NaN'' \<or> w = u ''Infinity'' \<or> w = u ''-Infinity'' then Some (PNum w)
      else if is_json_number w then Some (PNum w)
      else None)"

fun dict_set :: "pystr \<Rightarrow> pyval \<Rightarrow> (pystr \<times> pyval) list \<Rightarrow> (pystr \<times> pyval) list" where
  "dict_set k v [] = [(k, v)]"
| "dict_set k v ((k', v') # items) =
     (if k' = k then (k, v) # items else (k', v') # dict_set k v items)"

text \<open>A finished value goes to the container on top of the stack.\<close>

fun deliver :: "pyval \<Rightarrow> frame list \<Rightarrow> frame list \<times> pmode" where
  "deliver v [] = ([], Finished v)"
| "deliver v (FArr items # st) = (FArr (items @ [v]) # st, WantComma)"
| "deliver v (FObj items k # st) = (FObj (dict_set k v items) [] # st, WantComma)"

definition scalar :: "pyval \<Rightarrow> frame list \<times> pmode \<Rightarrow> exn + frame list \<times> pmode" where
  "scalar v p =
     (case snd p of
        WantValue b \<Rightarrow> Inr (deliver v (fst p))
      | _ \<Rightarrow> Inl JSONDecodeError)"

definition string_token :: "pystr \<Rightarrow> frame list \<times> pmode \<Rightarrow> exn + frame list \<times> pmode" where
  "string_token w p =
     (case snd p of
        WantValue b \<Rightarrow> Inr (deliver (PStr w) (fst p))
      | WantKey b \<Rightarrow> Inr (fst p, WantColon w)
      | _ \<Rightarrow> Inl JSONDecodeError)"

definition bare_token :: "pystr \<Rightarrow> frame list \<times> pmode \<Rightarrow> exn + frame list \<times> pmode" where
  "bare_token w p =
     (case bare_value w of None \<Rightarrow> Inl JSONDecodeError | Some v \<Rightarrow> scalar v p)"

definition open_container ::
  "nat \<Rightarrow> frame \<Rightarrow> pmode \<Rightarrow> frame list \<times> pmode \<Rightarrow> exn + frame list \<times> pmode" where
  "open_container limit f m p =
     (case snd p of
        WantValue b \<Rightarrow>
          if limit \<le> length (fst p) then Inl RecursionError else Inr (f # fst p, m)
      | _ \<Rightarrow> Inl JSONDecodeError)"

definition punct :: "nat \<Rightarrow> nat \<Rightarrow> frame list \<times> pmode \<Rightarrow> exn + frame list \<times> pmode" where
  "punct limit c p =
     (if c = 123 then open_container limit (FObj [] []) (WantKey True) p
      else if c = 91 then open_container limit (FArr []) (WantValue True) p
      else if c = 125 then
        (case p of
           (FObj items k # st, WantKey True) \<Rightarrow> Inr (deliver (PDict items) st)
         | (FObj items k # st, WantComma) \<Rightarrow> Inr (deliver (PDict items) st)
         | _ \<Rightarrow> Inl JSONDecodeError)
      else if c = 93 then
        (case p of
           (FArr items # st, WantValue True) \<Rightarrow> Inr (deliver (PList items) st)
         | (FArr items # st, WantComma) \<Rightarrow> Inr (deliver (PList items) st)
         | _ \<Rightarrow> Inl JSONDecodeError)
      else if c = 44 then
        (case p of
           (FArr items # st, WantComma) \<Rightarrow> Inr (FArr items # st, WantValue False)
         | (FObj items k # st, WantComma) \<Rightarrow> Inr (FObj items k # st, WantKey False)
         | _ \<Rightarrow> Inl JSONDecodeError)
      else
        (case p of
           (FObj items k # st, WantColon w) \<Rightarrow> Inr (FObj items w # st, WantValue False)
         | _ \<Rightarrow> Inl JSONDecodeError))"

definition json_space :: "nat \<Rightarrow> bool" where
  "json_space c = (c = 32 \<or> c = 9 \<or> c = 10 \<or> c = 13)"

definition json_punct :: "nat \<Rightarrow> bool" where
  "json_punct c = (c = 123 \<or> c = 125 \<or> c = 91 \<or> c = 93 \<or> c = 44 \<or> c = 58)"

definition escape_char :: "nat \<Rightarrow> nat option" where
  "escape_char c =
     (if c = 34 \<or> c = 92 \<or> c = 47 then Some c
      else if c = 98 then Some 8
      else if c = 102 then Some 12
      else if c = 110 then Some 10
      else if c = 114 then Some 13
      else if c = 116 then Some 9
      else None)"

definition hex_val :: "nat \<Rightarrow> nat option" where
  "hex_val c =
     (if 48 \<le> c \<and> c \<le> 57 then Some (c - 48)
      else if 97 \<le> c \<and> c \<le> 102 then Some (c - 87)
      else if 65 \<le> c \<and> c \<le> 70 then Some (c - 55)
      else None)"

text \<open>A \<open>\uXXXX\<close> unit joins the string; after an escaped high surrogate an escaped
  low surrogate makes one code point with it.\<close>

definition add_unit :: "pystr \<Rightarrow> bool \<Rightarrow> nat \<Rightarrow> lexstate" where
  "add_unit acc hi x =
     (if hi \<and> acc \<noteq> [] \<and> 56320 \<le> x \<and> x \<le> 57343
      then LStr (butlast acc @ [65536 + (last acc - 55296) * 1024 + (x - 56320)]) False
      else LStr (acc @ [x]) (55296 \<le> x \<and> x \<le> 56319))"

text \<open>One character in the idle state.\<close>

definition idle_char ::
  "nat \<Rightarrow> nat \<Rightarrow> frame list \<times> pmode \<Rightarrow> exn + lexstate \<times> frame list \<times> pmode" where
  "idle_char limit c p =
     (if json_space c then Inr (LIdle, p)
      else if c = 34 then Inr (LStr [] False, p)
      else if json_punct c
      then (case punct limit c p of Inl e \<Rightarrow> Inl e | Inr p' \<Rightarrow> Inr (LIdle, p'))
      else Inr (LBare [c], p))"

fun feed ::
  "nat \<Rightarrow> lexstate \<Rightarrow> nat \<Rightarrow> frame list \<times> pmode \<Rightarrow> exn + lexstate \<times> frame list \<times> pmode" where
  "feed limit LIdle c p = idle_char limit c p"
| "feed limit (LBare w) c p =
     (if json_space c \<or> c = 34 \<or> json_punct c
      then (case bare_token w p of Inl e \<Rightarrow> Inl e | Inr p' \<Rightarrow> idle_char limit c p')
      else Inr (LBare (w @ [c]), p))"
| "feed limit (LStr acc hi) c p =
     (if c = 34
      then (case string_token acc p of Inl e \<Rightarrow> Inl e | Inr p' \<Rightarrow> Inr (LIdle, p'))
      else if c = 92 then Inr (LEsc acc hi, p)
      else if c < 32 then Inl JSONDecodeError
      else Inr (LStr (acc @ [c]) False, p))"
| "feed limit (LEsc acc hi) c p =
     (if c = 117 then Inr (LHex acc hi [], p)
      else (case escape_char c of
              None \<Rightarrow> Inl JSONDecodeError
            | Some x \<Rightarrow> Inr (LStr (acc @ [x]) False, p)))"
| "feed limit (LHex acc hi ds) c p =
     (case hex_val c of
        None \<Rightarrow> Inl JSONDecodeError
      | Some d \<Rightarrow>
          if length ds = 3
          then Inr (add_unit acc hi (foldl (\<lambda>a x. 16 * a + x) 0 (ds @ [d])), p)
          else Inr (LHex acc hi (ds @ [d]), p))"

fun scan ::
  "nat \<Rightarrow> pystr \<Rightarrow> lexstate \<Rightarrow> frame list \<times> pmode \<Rightarrow> exn + pyval" where
  "scan limit [] l p =
     (case (case l of
              LIdle \<Rightarrow> Inr p
            | LBare w \<Rightarrow> bare_token w p
            | _ \<Rightarrow> Inl JSONDecodeError) of
        Inl e \<Rightarrow> Inl e
      | Inr p' \<Rightarrow> (case snd p' of Finished v \<Rightarrow> Inr v | _ \<Rightarrow> Inl JSONDecodeError))"
| "scan limit (c # cs) l p =
     (case snd p of
        Finished v \<Rightarrow> if json_space c then scan limit cs l p else Inl JSONDecodeError
      | _ \<Rightarrow>
          (case feed limit l c p of
             Inl e \<Rightarrow> Inl e
           | Inr (l', p') \<Rightarrow> scan limit cs l' p'))"

definition json_loads :: "nat \<Rightarrow> pystr \<Rightarrow> exn + pyval" where
  "json_loads limit s =
     (if s \<noteq> [] \<and> hd s = 65279 then Inl JSONDecodeError
      else scan limit s LIdle ([], WantValue False))"

text \<open>
  \<open>py_env\<close> is CPython on text below U+0100: there the decimal digits are the ASCII
  digits, \<open>str.lower\<close> moves \<open>A-Z\<close> and the capital letters of Latin-1 by 32, and
  the whitespace of \<open>\s\<close> and \<open>str.isspace\<close> is as listed (the list is complete
  for all of Unicode).  \<open>family_members\<close> is visited in the order of the source.
\<close>

definition py_isspace :: "nat \<Rightarrow> bool" where
  "py_isspace c =
     ((9 \<le> c \<and> c \<le> 13) \<or> (28 \<le> c \<and> c \<le> 32) \<or> c = 133 \<or> c = 160 \<or> c = 5760
      \<or> (8192 \<le> c \<and> c \<le> 8202) \<or> c = 8232 \<or> c = 8233 \<or> c = 8239 \<or> c = 8287
      \<or> c = 12288)"

definition py_decimal :: "nat \<Rightarrow> nat option" where
  "py_decimal c = (if 48 \<le> c \<and> c \<le> 57 then Some (c - 48) else None)"

definition py_lower_char :: "nat \<Rightarrow> nat" where
  "py_lower_char c =
     (if (65 \<le> c \<and> c \<le> 90) \<or> (192 \<le> c \<and> c \<le> 222 \<and> c \<noteq> 215) then c + 32 else c)"

definition py_env :: "nat \<Rightarrow> pyenv" where
  "py_env limit =
     \<lparr>decimal = py_decimal, isspace = py_isspace, lower = map py_lower_char,
      loads = json_loads limit, family_order = family_members\<rparr>"

section \<open>Notions used by the properties\<close>

text \<open>An accepted record: extraction returns, with a cost and a currency.\<close>

definition accepted :: "pyenv \<Rightarrow> pyval \<Rightarrow> bool" where
  "accepted E email =
     (case extract_receipt_from_email E email of
        Inl e \<Rightarrow> False
      | Inr r \<Rightarrow> cost r \<noteq> None \<and> currency r \<noteq> None)"

definition accepted_single :: "pyenv \<Rightarrow> pyval \<Rightarrow> bool" where
  "accepted_single E email =
     (case extract_single_receipt E email of
        Inl e \<Rightarrow> False
      | Inr r \<Rightarrow> cost r \<noteq> None \<and> currency r \<noteq> None)"

text \<open>A record whose \<open>body\<close> is the given text.\<close>

definition record_of :: "pystr \<Rightarrow> pyval" where
  "record_of body = PDict [(u ''body'', PStr body)]"

text \<open>
  What a pattern matches: \<open>sem E r w g g'\<close> says that \<open>r\<close> matches the text
  \<open>w\<close> and turns the groups \<open>g\<close> into \<open>g'\<close>.
\<close>

fun sem :: "pyenv \<Rightarrow> re \<Rightarrow> pystr \<Rightarrow> groups \<Rightarrow> groups \<Rightarrow> bool" where
  "sem E (Lit l) w g g' = (w = l \<and> g' = g)"
| "sem E (One a) w g g' = (\<exists>c. w = [c] \<and> atom_ok E a c \<and> g' = g)"
| "sem E (Rep greedy lo hi a) w g g' =
     (list_all (atom_ok E a) w \<and> lo \<le> length w \<and> below (length w) (map_option Suc hi) \<and> g' = g)"
| "sem E (Seq a b) w g g' =
     (\<exists>w1 w2 g1. w = w1 @ w2 \<and> sem E a w1 g g1 \<and> sem E b w2 g1 g')"
| "sem E (Alt a b) w g g' = (sem E a w g g' \<or> sem E b w g g')"
| "sem E (Grp n a) w g g' = (\<exists>g1. sem E a w g g1 \<and> g' = g1(n := Some w))"

text \<open>
  The two facts about the Unicode tables that the properties of amounts need: the full
  stop and the comma are not decimal digits.
\<close>

definition plain_separators :: "pyenv \<Rightarrow> bool" where
  "plain_separators E = (decimal E 46 = None \<and> decimal E 44 = None)"

text \<open>The loop over \<open>family_members\<close> visits exactly the six names.\<close>

definition roster_ok :: "pyenv \<Rightarrow> bool" where
  "roster_ok E = (set (family_order E) = set family_members)"

section \<open>Evaluation\<close>

text \<open>The equations that evaluate the model on a concrete text.\<close>

lemmas str_defs = u_def strip_def split_def zfill_def replace_def startswith_def endswith_def

lemmas re_defs = below_def match_here_def search_def group_def plus_def star_def opt_def
  times_def lazy_star_def ws_def digit_def amount_char_def separator_def currency_char_def
  letter_def keyword_def total_pattern_def total_pattern2_def date_token_def date_pattern_def
  general_date_pattern_def greeting_def passenger_pattern_def travel_word_def trip_word_def
  name_patterns_def general_patterns_def family_members_def marker_def
  strict_total_pattern_def ascii_digit_def strict_date_pattern_def strict_passenger_pattern_def

lemmas ex_defs = digit_val_def digits_val_def is_digit_def py_float_def cost_of_group_def
  cost_and_currency_def date_of_group_def date_of_body_def canonical_def truthy_def
  passenger_of_body_def get_body_def extract_from_body_def empty_receipt_def
  extract_receipt_from_email_def convert_swedish_date_to_iso_def swedish_months_def
  no_lists_def append_receipt_def fragment_def parse_emails_def validate_def
  normalize_emails_def extract_uber_data_def extract_single_receipt_def iterate_def
  function'_def accepted_def accepted_single_def record_of_def

lemmas env_defs = py_env_def py_isspace_def py_decimal_def py_lower_char_def

lemmas json_defs = json_loads_def json_digit_def exp_ok_def frac_exp_ok_def is_json_number_def
  bare_value_def scalar_def string_token_def bare_token_def open_container_def punct_def
  json_space_def json_punct_def escape_char_def hex_val_def add_unit_def idle_char_def

section \<open>The matcher is sound\<close>

text \<open>
  Whatever \<open>rmatch\<close> finds is a match in the sense of \<open>sem\<close>, and \<open>search\<close> returns
  the match at the first position of the text where the pattern matches.
\<close>

lemma below_Suc: "below n hi \<Longrightarrow> below (Suc n) (map_option Suc hi)"
  by (auto simp: below_def split: option.splits)

lemma rep_greedy_sound:
  "rep_greedy p n lo hi s k = Some x \<Longrightarrow> below n (map_option Suc hi) \<Longrightarrow>
   \<exists>w s'. s = w @ s' \<and> list_all p w \<and> lo \<le> n + length w \<and>
      below (n + length w) (map_option Suc hi) \<and> k s' = Some x"
proof (induction s arbitrary: n)
  case Nil
  then show ?case by (auto split: if_splits)
next
  case (Cons c cs)
  have stop: ?case if "lo \<le> n" "k (c # cs) = Some x"
    using that Cons.prems(2) by (intro exI[of _ "[]"] exI[of _ "c # cs"]) simp
  show ?case
  proof (cases "p c \<and> below n hi")
    case True
    show ?thesis
    proof (cases "rep_greedy p (Suc n) lo hi cs k")
      case None
      with Cons.prems True have "lo \<le> n" "k (c # cs) = Some x"
        by (auto split: if_splits)
      then show ?thesis by (rule stop)
    next
      case (Some r)
      with Cons.prems True have "rep_greedy p (Suc n) lo hi cs k = Some x" by simp
      from Cons.IH[OF this below_Suc] True obtain w s' where
        "cs = w @ s'" "list_all p w" "lo \<le> Suc n + length w"
        "below (Suc n + length w) (map_option Suc hi)" "k s' = Some x" by blast
      then show ?thesis using True
        by (intro exI[of _ "c # w"] exI[of _ s']) simp
    qed
  next
    case False
    with Cons.prems have "lo \<le> n" "k (c # cs) = Some x" by (auto split: if_splits)
    then show ?thesis by (rule stop)
  qed
qed

lemma rep_lazy_sound:
  "rep_lazy p n lo hi s k = Some x \<Longrightarrow> below n (map_option Suc hi) \<Longrightarrow>
   \<exists>w s'. s = w @ s' \<and> list_all p w \<and> lo \<le> n + length w \<and>
      below (n + length w) (map_option Suc hi) \<and> k s' = Some x"
proof (induction s arbitrary: n)
  case Nil
  then show ?case by (auto split: if_splits)
next
  case (Cons c cs)
  have stop: ?case if "lo \<le> n" "k (c # cs) = Some x"
    using that Cons.prems(2) by (intro exI[of _ "[]"] exI[of _ "c # cs"]) simp
  show ?case
  proof (cases "lo \<le> n \<and> k (c # cs) \<noteq> None")
    case True
    with Cons.prems(1) have "k (c # cs) = Some x" by auto
    with True show ?thesis by (intro stop) auto
  next
    case False
    with Cons.prems(1) have *: "p c \<and> below n hi" "rep_lazy p (Suc n) lo hi cs k = Some x"
      by (auto split: if_splits option.splits)
    from Cons.IH[OF *(2) below_Suc] * obtain w s' where
      "cs = w @ s'" "list_all p w" "lo \<le> Suc n + length w"
      "below (Suc n + length w) (map_option Suc hi)" "k s' = Some x" by blast
    then show ?thesis using *
      by (intro exI[of _ "c # w"] exI[of _ s']) simp
  qed
qed

lemma rmatch_sound:
  "rmatch E r s g k = Some x \<Longrightarrow>
   \<exists>w s' g'. s = w @ s' \<and> sem E r w g g' \<and> k s' g' = Some x"
proof (induction r arbitrary: s g k)
  case (Lit l)
  then have "take (length l) s = l" "k (drop (length l) s) g = Some x"
    by (auto split: if_splits)
  then have "s = l @ drop (length l) s" "sem E (Lit l) l g g"
    by (metis append_take_drop_id) simp
  with \<open>k (drop (length l) s) g = Some x\<close> show ?case by blast
next
  case (One a)
  then obtain c cs where "s = [c] @ cs" "atom_ok E a c" "k cs g = Some x"
    by (cases s) (auto split: if_splits)
  moreover from this have "sem E (One a) [c] g g" by simp
  ultimately show ?case by blast
next
  case (Rep greedy lo hi a)
  have b0: "below 0 (map_option Suc hi)" by (auto simp: below_def split: option.splits)
  show ?case
  proof (cases greedy)
    case True
    with Rep have "rep_greedy (atom_ok E a) 0 lo hi s (\<lambda>s'. k s' g) = Some x" by simp
    from rep_greedy_sound[OF this b0] obtain w s' where
      "s = w @ s'" "list_all (atom_ok E a) w" "lo \<le> length w"
      "below (length w) (map_option Suc hi)" "k s' g = Some x" by auto
    moreover from this have "sem E (Rep greedy lo hi a) w g g" by simp
    ultimately show ?thesis by blast
  next
    case False
    with Rep have "rep_lazy (atom_ok E a) 0 lo hi s (\<lambda>s'. k s' g) = Some x" by simp
    from rep_lazy_sound[OF this b0] obtain w s' where
      "s = w @ s'" "list_all (atom_ok E a) w" "lo \<le> length w"
      "below (length w) (map_option Suc hi)" "k s' g = Some x" by auto
    moreover from this have "sem E (Rep greedy lo hi a) w g g" by simp
    ultimately show ?thesis by blast
  qed
next
  case (Seq a b)
  from Seq.prems have "rmatch E a s g (\<lambda>s' g'. rmatch E b s' g' k) = Some x" by simp
  from Seq.IH(1)[OF this] obtain w1 s1 g1 where
    1: "s = w1 @ s1" "sem E a w1 g g1" "rmatch E b s1 g1 k = Some x" by blast
  from Seq.IH(2)[OF 1(3)] obtain w2 s2 g2 where
    2: "s1 = w2 @ s2" "sem E b w2 g1 g2" "k s2 g2 = Some x" by blast
  have "s = (w1 @ w2) @ s2" using 1 2 by simp
  moreover have "sem E (Seq a b) (w1 @ w2) g g2" using 1 2 by auto
  ultimately show ?case using 2(3) by blast
next
  case (Alt a b)
  show ?case
  proof (cases "rmatch E a s g k")
    case None
    with Alt.prems have "rmatch E b s g k = Some x" by simp
    from Alt.IH(2)[OF this] obtain w s' g' where
      "s = w @ s'" "sem E b w g g'" "k s' g' = Some x" by blast
    moreover from this have "sem E (Alt a b) w g g'" by simp
    ultimately show ?thesis by blast
  next
    case (Some r)
    with Alt.prems have "rmatch E a s g k = Some x" by simp
    from Alt.IH(1)[OF this] obtain w s' g' where
      "s = w @ s'" "sem E a w g g'" "k s' g' = Some x" by blast
    moreover from this have "sem E (Alt a b) w g g'" by simp
    ultimately show ?thesis by blast
  qed
next
  case (Grp n a)
  from Grp.prems have
    "rmatch E a s g (\<lambda>s' g'. k s' (g'(n := Some (take (length s - length s') s)))) = Some x"
    by simp
  from Grp.IH[OF this] obtain w s' g1 where
    *: "s = w @ s'" "sem E a w g g1" "k s' (g1(n := Some (take (length s - length s') s))) = Some x"
    by blast
  then have "take (length s - length s') s = w" by simp
  with * have "k s' (g1(n := Some w)) = Some x" "sem E (Grp n a) w g (g1(n := Some w))"
    by auto
  with *(1) show ?case by blast
qed

lemma search_from_sound:
  "search_from E r s pos = Some m \<Longrightarrow>
   \<exists>pre w post. s = pre @ w @ post \<and> sem E r w (\<lambda>n. None) (grp m) \<and>
     start m = pos + length pre \<and> stop m = start m + length w \<and>
     (\<forall>j < length pre. match_here E r (drop j s) = None)"
proof (induction s arbitrary: pos)
  case Nil
  then obtain s' g where h: "match_here E r [] = Some (s', g)" and m: "m = \<lparr>start = pos, stop = pos, grp = g\<rparr>"
    by (auto split: option.splits)
  from rmatch_sound[OF h[unfolded match_here_def]] have "sem E r [] (\<lambda>n. None) g" by auto
  with m show ?case by (intro exI[of _ "[]"]) auto
next
  case (Cons c cs)
  show ?case
  proof (cases "match_here E r (c # cs)")
    case None
    with Cons.prems have "search_from E r cs (Suc pos) = Some m" by simp
    from Cons.IH[OF this] obtain pre w post where
      *: "cs = pre @ w @ post" "sem E r w (\<lambda>n. None) (grp m)"
      "start m = Suc pos + length pre" "stop m = start m + length w"
      "\<forall>j < length pre. match_here E r (drop j cs) = None" by blast
    have "\<forall>j < length (c # pre). match_here E r (drop j (c # cs)) = None"
      using None *(5) by (auto simp: less_Suc_eq_0_disj)
    with * show ?thesis
      by (intro exI[of _ "c # pre"] exI[of _ w] exI[of _ post]) auto
  next
    case (Some a)
    obtain s' g where a: "a = (s', g)" by (cases a)
    with Some Cons.prems have m: "m = \<lparr>start = pos, stop = pos + (length (c # cs) - length s'), grp = g\<rparr>"
      by simp
    from rmatch_sound[OF Some[unfolded match_here_def a]] obtain w where
      "c # cs = w @ s'" "sem E r w (\<lambda>n. None) g" by auto
    with m show ?thesis
      by (intro exI[of _ "[]"] exI[of _ w] exI[of _ s']) auto
  qed
qed

lemma search_sound:
  assumes "search E r s = Some m"
  obtains pre w post where "s = pre @ w @ post" "sem E r w (\<lambda>n. None) (grp m)"
    "start m = length pre" "stop m = length pre + length w"
    "\<forall>j < length pre. match_here E r (drop j s) = None"
  using search_from_sound[OF assms[unfolded search_def]] by auto

section \<open>Date conversion: properties\<close>

lemma split_from_Nil: "split_from E [] [] = []"
  by simp

lemma convert_three_parts:
  assumes "split E (strip E s) = [d, m, y]"
  shows "convert_swedish_date_to_iso E s =
           (case map_of swedish_months (lower E m) of
              Some month \<Rightarrow> Some (y @ u ''-'' @ month @ u ''-'' @ zfill 2 d)
            | None \<Rightarrow> None)"
proof -
  have "s \<noteq> []"
  proof
    assume "s = []"
    then have "split E (strip E s) = []" by (simp add: strip_def split_def)
    with assms show False by simp
  qed
  with assms show ?thesis by (simp add: convert_swedish_date_to_iso_def)
qed

lemma convert_not_three_parts:
  assumes "length (split E (strip E s)) \<noteq> 3"
  shows "convert_swedish_date_to_iso E s = None"
  using assms
  by (auto simp: convert_swedish_date_to_iso_def split: list.splits)

lemma convert_5_juli:
  "convert_swedish_date_to_iso (py_env limit) (u ''5 juli 2025'') = Some (u ''2025-07-05'')"
  by (simp add: convert_swedish_date_to_iso_def swedish_months_def str_defs env_defs)

lemma convert_31_december:
  "convert_swedish_date_to_iso (py_env limit) (u ''31 december 1999'') = Some (u ''1999-12-31'')"
  by (simp add: convert_swedish_date_to_iso_def swedish_months_def str_defs env_defs)

text \<open>
  C5.  The date conversion maps \<open>5 juli 2025\<close> to \<open>2025-07-05\<close> and
  \<open>31 december 1999\<close> to \<open>1999-12-31\<close>.  For every runtime \<open>E\<close> and every string
  \<open>s\<close>: if \<open>s\<close> does not split into exactly three whitespace-separated parts, or if
  it does and the lower-cased second part is no key of the month table, the result is
  the absent date \<open>None\<close>.  The function has no other outcome than a date or
  \<open>None\<close>: it never raises.
\<close>

theorem C5_date_conversion:
  "convert_swedish_date_to_iso (py_env limit) (u ''5 juli 2025'') = Some (u ''2025-07-05'')
   \<and> convert_swedish_date_to_iso (py_env limit) (u ''31 december 1999'') = Some (u ''1999-12-31'')
   \<and> (length (split E (strip E s)) \<noteq> 3 \<longrightarrow> convert_swedish_date_to_iso E s = None)
   \<and> (split E (strip E s) = [d, m, y] \<and> map_of swedish_months (lower E m) = None
        \<longrightarrow> convert_swedish_date_to_iso E s = None)"
proof (intro conjI impI)
  show "convert_swedish_date_to_iso (py_env limit) (u ''5 juli 2025'') = Some (u ''2025-07-05'')"
    by (rule convert_5_juli)
  show "convert_swedish_date_to_iso (py_env limit) (u ''31 december 1999'') = Some (u ''1999-12-31'')"
    by (rule convert_31_december)
  show "convert_swedish_date_to_iso E s = None" if "length (split E (strip E s)) \<noteq> 3"
    using that by (rule convert_not_three_parts)
  show "convert_swedish_date_to_iso E s = None"
    if "split E (strip E s) = [d, m, y] \<and> map_of swedish_months (lower E m) = None"
    using that by (simp add: convert_three_parts)
qed

text \<open>Witness: \<open>5 juli\<close> has two parts, and \<open>foo\<close> in \<open>5 foo 2025\<close> is no month.\<close>

theorem C5_date_conversion_witness:
  "convert_swedish_date_to_iso (py_env 100) (u ''5 juli'') = None
   \<and> convert_swedish_date_to_iso (py_env 100) (u ''5 foo 2025'') = None"
proof -
  have two: "length (split (py_env 100) (strip (py_env 100) (u ''5 juli''))) \<noteq> 3"
    by (simp add: str_defs env_defs)
  have three: "split (py_env 100) (strip (py_env 100) (u ''5 foo 2025''))
                 = [u ''5'', u ''foo'', u ''2025'']"
    by (simp add: str_defs env_defs)
  have no_month: "map_of swedish_months (lower (py_env 100) (u ''foo'')) = None"
    by (simp add: swedish_months_def str_defs env_defs)
  from C5_date_conversion[of 100 "py_env 100" "u ''5 juli''"] two
  have "convert_swedish_date_to_iso (py_env 100) (u ''5 juli'') = None" by blast
  moreover
  from C5_date_conversion[of 100 "py_env 100" "u ''5 foo 2025''" "u ''5''" "u ''foo''" "u ''2025''"]
    three no_month
  have "convert_swedish_date_to_iso (py_env 100) (u ''5 foo 2025'') = None" by blast
  ultimately show ?thesis by simp
qed

lemma convert_99_juli:
  "convert_swedish_date_to_iso (py_env limit) (u ''99 juli 2025'') = Some (u ''2025-07-99'')"
  by (simp add: convert_swedish_date_to_iso_def swedish_months_def str_defs env_defs)

text \<open>
  C10.  The date conversion validates neither the day nor the year.  For every runtime
  \<open>E\<close> and every string that splits into three parts \<open>d\<close>, \<open>m\<close>, \<open>y\<close> with a
  recognized month word, the result is \<open>y-month-d'\<close>, where \<open>d'\<close> is \<open>d\<close>
  zero-padded to two characters and \<open>y\<close> is copied as it is.  In particular
  \<open>99 juli 2025\<close> becomes \<open>2025-07-99\<close>, which has the shape of a date and is none.
\<close>

theorem C10_no_calendar_validation:
  "(split E (strip E s) = [d, m, y] \<and> map_of swedish_months (lower E m) = Some month
      \<longrightarrow> convert_swedish_date_to_iso E s = Some (y @ u ''-'' @ month @ u ''-'' @ zfill 2 d))
   \<and> convert_swedish_date_to_iso (py_env limit) (u ''99 juli 2025'') = Some (u ''2025-07-99'')"
  by (simp add: convert_three_parts convert_99_juli)

text \<open>Witness: the parts of \<open>99 juli 2025\<close>; the day \<open>99\<close> is copied.\<close>

theorem C10_no_calendar_validation_witness:
  "convert_swedish_date_to_iso (py_env 100) (u ''99 juli 2025'')
     = Some (u ''2025'' @ u ''-'' @ u ''07'' @ u ''-'' @ zfill 2 (u ''99''))
   \<and> zfill 2 (u ''99'') = u ''99''"
proof -
  have three: "split (py_env 100) (strip (py_env 100) (u ''99 juli 2025''))
                 = [u ''99'', u ''juli'', u ''2025'']"
    by (simp add: str_defs env_defs)
  have month: "map_of swedish_months (lower (py_env 100) (u ''juli'')) = Some (u ''07'')"
    by (simp add: swedish_months_def str_defs env_defs)
  from C10_no_calendar_validation[of "py_env 100" "u ''99 juli 2025''" "u ''99''" "u ''juli''"
      "u ''2025''" "u ''07''"] three month
  have "convert_swedish_date_to_iso (py_env 100) (u ''99 juli 2025'')
          = Some (u ''2025'' @ u ''-'' @ u ''07'' @ u ''-'' @ zfill 2 (u ''99''))" by blast
  moreover have "zfill 2 (u ''99'') = u ''99''" by (simp add: str_defs)
  ultimately show ?thesis by simp
qed

end
